theory Spec2Isabelle
  imports Complex_Main
begin

section \<open>The environment of \<open>human_simulator.py\<close>\<close>

text \<open>
  The module reads a clock (\<open>time.time()\<close>), sleeps (\<open>time.sleep\<close>) and draws from
  two process-wide generators: Python's \<open>random\<close> and \<open>numpy.random\<close>. The world
  record makes the three explicit. \<open>py_random\<close> is the sequence of values that successive
  calls of \<open>random.random()\<close> return (each in \<open>[0, 1)\<close>), \<open>np_normal\<close> the sequence of
  standard normal draws behind \<open>np.random.normal\<close>. A draw takes the head of a sequence
  and leaves its tail. Python floats are modelled by the reals.
\<close>

datatype py_error = ValueError

record world =
  now :: real
  py_random :: "nat \<Rightarrow> real"
  np_normal :: "nat \<Rightarrow> real"

definition random_random :: "world \<Rightarrow> real \<times> world" where
  "random_random w = (py_random w 0, w\<lparr>py_random := (\<lambda>n. py_random w (Suc n))\<rparr>)"

text \<open>\<open>random.uniform(a, b)\<close> is \<open>a + (b - a) * random()\<close>.\<close>

definition random_uniform :: "real \<Rightarrow> real \<Rightarrow> world \<Rightarrow> real \<times> world" where
  "random_uniform a b w = (let (u, w') = random_random w in (a + (b - a) * u, w'))"

text \<open>\<open>random.randint(a, b)\<close>: an integer of \<open>[a, b]\<close>, chosen by one draw.\<close>

definition random_randint :: "int \<Rightarrow> int \<Rightarrow> world \<Rightarrow> int \<times> world" where
  "random_randint a b w =
     (let (u, w') = random_random w in (a + \<lfloor>u * real_of_int (b - a + 1)\<rfloor>, w'))"

text \<open>
  \<open>np.random.normal(loc, scale)\<close> raises \<open>ValueError\<close> for a negative scale and
  otherwise returns \<open>loc + scale * z\<close> for the next standard normal draw \<open>z\<close>.
\<close>

definition np_random_normal :: "real \<Rightarrow> real \<Rightarrow> world \<Rightarrow> py_error + real \<times> world" where
  "np_random_normal loc scale w =
     (if scale < 0 then Inl ValueError
      else Inr (loc + scale * np_normal w 0, w\<lparr>np_normal := (\<lambda>n. np_normal w (Suc n))\<rparr>))"

text \<open>\<open>np.clip(x, lo, hi)\<close> is \<open>minimum(maximum(x, lo), hi)\<close>.\<close>

definition np_clip :: "'a::linorder \<Rightarrow> 'a \<Rightarrow> 'a \<Rightarrow> 'a" where
  "np_clip x lo hi = min (max x lo) hi"

text \<open>\<open>time.sleep(secs)\<close> raises \<open>ValueError\<close> for a negative length; the clock moves on.\<close>

definition time_sleep :: "real \<Rightarrow> world \<Rightarrow> py_error + world" where
  "time_sleep secs w = (if secs < 0 then Inl ValueError else Inr (w\<lparr>now := now w + secs\<rparr>))"

text \<open>\<open>int(x)\<close> of a float truncates towards zero.\<close>

definition py_int :: "real \<Rightarrow> int" where
  "py_int x = (if 0 \<le> x then \<lfloor>x\<rfloor> else \<lceil>x\<rceil>)"

section \<open>\<open>HumanBehavior\<close>\<close>

text \<open>
  \<open>human_delay\<close> returns nothing: its effect is the sleep, so the model returns the
  world after it (or the exception raised).
\<close>

definition human_delay :: "real \<Rightarrow> real \<Rightarrow> string \<Rightarrow> world \<Rightarrow> py_error + world" where
  "human_delay min_ms max_ms distribution w =
     (if distribution = ''normal'' then
        (let mean = (min_ms + max_ms) / 2;
             std_dev = (max_ms - min_ms) / 6
         in case np_random_normal mean std_dev w of
              Inl e \<Rightarrow> Inl e
            | Inr (delay_ms, w1) \<Rightarrow> time_sleep (np_clip delay_ms min_ms max_ms / 1000) w1)
      else
        (let (delay_ms, w1) = random_uniform min_ms max_ms w
         in time_sleep (delay_ms / 1000) w1))"

text \<open>
  \<open>human_click\<close>: the element is read through \<open>is_displayed()\<close> and \<open>size\<close>; the
  driver receives a gesture. The result is the value returned and the gestures performed.
  An exception inside the \<open>try\<close> block leads to the fallback \<open>element.click()\<close>.
\<close>

record element =
  is_displayed :: bool
  width :: int
  height :: int

datatype gesture = MoveToOffsetAndClick int int | ElementClick

definition human_click :: "element \<Rightarrow> int \<Rightarrow> world \<Rightarrow> (bool \<times> gesture list) \<times> world" where
  "human_click el variance w =
     (if \<not> is_displayed el then ((False, []), w)
      else
        (let max_offset_x = min variance (width el div 3);
             max_offset_y = min variance (height el div 3)
         in case np_random_normal 0 (real_of_int max_offset_x / 2) w of
              Inl e \<Rightarrow> ((True, [ElementClick]), w)
            | Inr (nx, w1) \<Rightarrow>
               (case np_random_normal 0 (real_of_int max_offset_y / 2) w1 of
                  Inl e \<Rightarrow> ((True, [ElementClick]), w1)
                | Inr (ny, w2) \<Rightarrow>
                   (let offset_x = np_clip (py_int nx) (- width el div 2 + 5) (width el div 2 - 5);
                        offset_y = np_clip (py_int ny) (- height el div 2 + 5) (height el div 2 - 5)
                    in case human_delay 50 200 ''normal'' w2 of
                         Inl e \<Rightarrow> ((True, [ElementClick]), w2)
                       | Inr w3 \<Rightarrow> ((True, [MoveToOffsetAndClick offset_x offset_y]), w3)))))"

text \<open>
  \<open>human_scroll\<close>: every pass of the loop runs one scroll script (on the element's
  \<open>scrollTop\<close> or on the window) and then pauses. The result is the list of scripts run.
\<close>

datatype script = ScrollTop int | ScrollBy int

fun pixels :: "script \<Rightarrow> int" where
  "pixels (ScrollTop d) = d"
| "pixels (ScrollBy d) = d"

fun scroll_loop :: "nat \<Rightarrow> bool \<Rightarrow> int \<Rightarrow> world \<Rightarrow> py_error + script list \<times> world" where
  "scroll_loop 0 on_element scroll_per_step w = Inr ([], w)"
| "scroll_loop (Suc i) on_element scroll_per_step w =
     (let sc = (if on_element then ScrollTop scroll_per_step else ScrollBy scroll_per_step)
      in case human_delay 50 150 ''normal'' w of
           Inl e \<Rightarrow> Inl e
         | Inr w1 \<Rightarrow>
            (case scroll_loop i on_element scroll_per_step w1 of
               Inl e \<Rightarrow> Inl e
             | Inr (scs, w2) \<Rightarrow> Inr (sc # scs, w2)))"

definition human_scroll ::
  "string \<Rightarrow> int option \<Rightarrow> bool \<Rightarrow> world \<Rightarrow> py_error + script list \<times> world" where
  "human_scroll direction amount on_element w =
     (let (amount', w1) = (case amount of None \<Rightarrow> random_randint 100 500 w | Some a \<Rightarrow> (a, w));
          scroll_amount = (if direction = ''down'' then amount' else - amount');
          (steps, w2) = random_randint 2 5 w1;
          scroll_per_step = scroll_amount div steps
      in scroll_loop (nat steps) on_element scroll_per_step w2)"

section \<open>\<open>SAFETY_CONFIG\<close> of \<open>settings.py\<close>\<close>

text \<open>
  The entries read from the process environment are fields of the record; the entry
  \<open>RANDOM_VARIANCE\<close> is the literal 0.3.
\<close>

record config =
  MAX_SESSION_DURATION :: int
  MIN_BREAK_DURATION :: int
  BREAK_FREQUENCY :: int
  MIN_CLICK_DELAY :: real
  MAX_CLICK_DELAY :: real
  ENABLE_FATIGUE :: bool

definition RANDOM_VARIANCE :: real where
  "RANDOM_VARIANCE = 3 / 10"

definition default_config :: config where
  "default_config =
     \<lparr>MAX_SESSION_DURATION = 14400, MIN_BREAK_DURATION = 600, BREAK_FREQUENCY = 3600,
      MIN_CLICK_DELAY = 1 / 2, MAX_CLICK_DELAY = 2, ENABLE_FATIGUE = True\<rparr>"

section \<open>\<open>TimingVariation\<close>\<close>

record action_record =
  rec_time :: real
  rec_type :: string
  rec_delay :: real

record TimingVariation =
  start_time :: real
  action_count :: int
  last_break_time :: real
  action_history :: "action_record list"

definition init :: "world \<Rightarrow> TimingVariation" where
  "init w = \<lparr>start_time = now w, action_count = 0, last_break_time = now w, action_history = []\<rparr>"

definition delay_ranges :: "config \<Rightarrow> string \<Rightarrow> (real \<times> real) option" where
  "delay_ranges cfg =
     [''click'' \<mapsto> (MIN_CLICK_DELAY cfg, MAX_CLICK_DELAY cfg),
      ''battle'' \<mapsto> (3 / 10, 8 / 10),
      ''reading'' \<mapsto> (1, 3),
      ''summon'' \<mapsto> (1 / 2, 3 / 2),
      ''results'' \<mapsto> (8 / 10, 2),
      ''navigation'' \<mapsto> (4 / 10, 1)]"

text \<open>\<open>_calculate_fatigue\<close> reads the object and the clock and writes nothing.\<close>

definition calculate_fatigue :: "config \<Rightarrow> TimingVariation \<Rightarrow> world \<Rightarrow> real" where
  "calculate_fatigue cfg self w =
     (if \<not> ENABLE_FATIGUE cfg then 1
      else
        (let session_duration = now w - start_time self;
             hours = session_duration / 3600;
             fatigue = min (125 / 100) (1 + hours * (5 / 100))
         in if action_count self > 500
            then (let action_fatigue = 1 + real_of_int (action_count self - 500) / 10000
                  in fatigue * min (11 / 10) action_fatigue)
            else fatigue))"

definition get_delay ::
  "config \<Rightarrow> string \<Rightarrow> TimingVariation \<Rightarrow> world \<Rightarrow> real \<times> TimingVariation \<times> world" where
  "get_delay cfg action_type self w =
     (let (min_delay, max_delay) =
            (case delay_ranges cfg action_type of Some r \<Rightarrow> r | None \<Rightarrow> (3 / 10, 8 / 10));
          fatigue = calculate_fatigue cfg self w;
          variance = RANDOM_VARIANCE;
          (base_delay, w1) = random_uniform min_delay max_delay w;
          delay_with_fatigue = base_delay * fatigue;
          (jitter, w2) = random_uniform (1 - variance) (1 + variance) w1;
          final_delay = delay_with_fatigue * jitter;
          self1 = self\<lparr>action_count := action_count self + 1\<rparr>;
          self2 = self1\<lparr>action_history := action_history self1 @
                    [\<lparr>rec_time = now w2, rec_type = action_type, rec_delay = final_delay\<rparr>]\<rparr>;
          self3 = (if length (action_history self2) > 100
                   then self2\<lparr>action_history := tl (action_history self2)\<rparr>
                   else self2)
      in (final_delay, self3, w2))"

text \<open>\<open>_get_break_duration\<close> builds the whole table, four draws, before the lookup.\<close>

definition get_break_duration :: "string \<Rightarrow> world \<Rightarrow> real \<times> world" where
  "get_break_duration break_type w =
     (let (micro, w1) = random_uniform 30 120 w;
          (short, w2) = random_uniform 300 600 w1;
          (scheduled, w3) = random_uniform 600 1200 w2;
          (long, w4) = random_uniform 1800 3600 w3;
          durations = [''micro'' \<mapsto> micro, ''short'' \<mapsto> short,
                       ''scheduled'' \<mapsto> scheduled, ''long'' \<mapsto> long]
      in (case durations break_type of Some d \<Rightarrow> d | None \<Rightarrow> 600, w4))"

definition should_take_break ::
  "config \<Rightarrow> TimingVariation \<Rightarrow> world \<Rightarrow> (bool \<times> real) \<times> TimingVariation \<times> world" where
  "should_take_break cfg self w =
     (let current_time = now w;
          time_since_break = current_time - last_break_time self
      in if time_since_break \<ge> real_of_int (BREAK_FREQUENCY cfg)
         then (let (duration, w1) = get_break_duration ''scheduled'' w
               in ((True, duration), self, w1))
         else
           (let (r, w1) = random_random w
            in if r < 1 / 1000
               then (let (duration, w2) = get_break_duration ''micro'' w1
                     in ((True, duration), self, w2))
               else
                 (let session_duration = current_time - start_time self
                  in if session_duration \<ge> real_of_int (MAX_SESSION_DURATION cfg)
                     then (let (duration, w2) = get_break_duration ''long'' w1
                           in ((True, duration), self, w2))
                     else ((False, 0), self, w1))))"

definition record_break :: "TimingVariation \<Rightarrow> world \<Rightarrow> TimingVariation" where
  "record_break self w = self\<lparr>last_break_time := now w\<rparr>"

text \<open>
  A caller's run: before each call of \<open>get_delay\<close> the caller lets some time pass.
  The run returns the record of every call, oldest first, with the object and the
  world after the last call.
\<close>

fun get_delay_calls ::
  "config \<Rightarrow> (string \<times> real) list \<Rightarrow> TimingVariation \<Rightarrow> world
     \<Rightarrow> action_record list \<times> TimingVariation \<times> world" where
  "get_delay_calls cfg [] self w = ([], self, w)"
| "get_delay_calls cfg ((action_type, pause) # cs) self w =
     (let w0 = w\<lparr>now := now w + pause\<rparr>;
          (d, self1, w1) = get_delay cfg action_type self w0;
          (log, self2, w2) = get_delay_calls cfg cs self1 w1
      in (\<lparr>rec_time = now w1, rec_type = action_type, rec_delay = d\<rparr> # log, self2, w2))"

section \<open>The fatigue multiplier as the specification words it\<close>

text \<open>
  The two components of the multiplier, written from the specification's formulas, to
  be compared with \<open>calculate_fatigue\<close>.
\<close>

definition time_component :: "real \<Rightarrow> real" where
  "time_component t_hours = min (125 / 100) (1 + (5 / 100) * t_hours)"

definition count_component :: "int \<Rightarrow> real" where
  "count_component n = (if n > 500 then min (11 / 10) (1 + real_of_int (n - 500) / 10000) else 1)"

section \<open>The click margin as the specification words it\<close>

text \<open>
  A click at offset \<open>(dx, dy)\<close> from the centre keeps the margin of 5 units when
  \<open>|dx| \<le> width / 2 - 5\<close> and \<open>|dy| \<le> height / 2 - 5\<close>.
\<close>

fun within_margin :: "element \<Rightarrow> gesture \<Rightarrow> bool" where
  "within_margin el (MoveToOffsetAndClick dx dy) =
     (\<bar>real_of_int dx\<bar> \<le> real_of_int (width el) / 2 - 5 \<and>
      \<bar>real_of_int dy\<bar> \<le> real_of_int (height el) / 2 - 5)"
| "within_margin el ElementClick = True"

section \<open>Concrete inputs\<close>

definition world_late :: world where
  "world_late = \<lparr>now = 20000, py_random = (\<lambda>n. 1 / 2), np_normal = (\<lambda>n. 0)\<rparr>"

definition session_start :: TimingVariation where
  "session_start = \<lparr>start_time = 0, action_count = 0, last_break_time = 0, action_history = []\<rparr>"

definition session_long :: TimingVariation where
  "session_long = \<lparr>start_time = 0, action_count = 1000, last_break_time = 0, action_history = []\<rparr>"

definition world_2h :: world where
  "world_2h = \<lparr>now = 7200, py_random = (\<lambda>n. 1 / 2), np_normal = (\<lambda>n. 0)\<rparr>"

definition session_500 :: TimingVariation where
  "session_500 = \<lparr>start_time = 0, action_count = 500, last_break_time = 0, action_history = []\<rparr>"

definition world_start :: world where
  "world_start = \<lparr>now = 0, py_random = (\<lambda>n. 1 / 2), np_normal = (\<lambda>n. 0)\<rparr>"


definition world_scroll :: world where
  "world_scroll = \<lparr>now = 0, py_random = (\<lambda>n. 3 / 10), np_normal = (\<lambda>n. 0)\<rparr>"

definition world_click :: world where
  "world_click = \<lparr>now = 0, py_random = (\<lambda>n. 1 / 2), np_normal = (\<lambda>n. - 9 / 5)\<rparr>"

definition element_21 :: element where
  "element_21 = \<lparr>is_displayed = True, width = 21, height = 21\<rparr>"

section \<open>Shared facts\<close>

lemma random_uniform_fst: "fst (random_uniform a b w) = a + (b - a) * py_random w 0"
  by (simp add: random_uniform_def random_random_def)

lemma random_uniform_snd:
  "snd (random_uniform a b w) = w\<lparr>py_random := (\<lambda>n. py_random w (Suc n))\<rparr>"
  by (simp add: random_uniform_def random_random_def)

lemma get_break_duration_fst:
  "fst (get_break_duration bt w) =
     (if bt = ''micro'' then 30 + 90 * py_random w 0
      else if bt = ''short'' then 300 + 300 * py_random w 1
      else if bt = ''scheduled'' then 600 + 600 * py_random w 2
      else if bt = ''long'' then 1800 + 1800 * py_random w 3
      else 600)"
  by (simp add: get_break_duration_def split_def Let_def random_uniform_fst random_uniform_snd
      numeral_2_eq_2 numeral_3_eq_3)

lemma should_take_break_fst:
  "fst (should_take_break cfg self w) =
     (if real_of_int (BREAK_FREQUENCY cfg) \<le> now w - last_break_time self
      then (True, 600 + 600 * py_random w 2)
      else if py_random w 0 < 1 / 1000 then (True, 30 + 90 * py_random w 1)
      else if real_of_int (MAX_SESSION_DURATION cfg) \<le> now w - start_time self
      then (True, 1800 + 1800 * py_random w 4)
      else (False, 0))"
  by (simp add: should_take_break_def split_def Let_def get_break_duration_fst random_random_def
      numeral_2_eq_2 numeral_3_eq_3 eval_nat_numeral)

section \<open>Breaks\<close>

text \<open>
  Claim C4. \<open>should_take_break\<close> tests the scheduled break first (time since the last
  break at least \<open>BREAK_FREQUENCY\<close>, duration in [600, 1200]), then the micro-break
  (a draw below 0.001, duration in [30, 120]), then the session cap (elapsed time at
  least \<open>MAX_SESSION_DURATION\<close>, duration in [1800, 3600]) and answers with the first
  that fires, whatever the later ones would say; when none fires it answers
  \<open>(False, 0)\<close>. Each duration is \<open>random.uniform\<close> of its bounds: the draw that
  produces it is named. The draws are those of \<open>random.random()\<close>, in \<open>[0, 1)\<close>.
\<close>

theorem should_take_break_order:
  assumes draws: "\<forall>n. 0 \<le> py_random w n \<and> py_random w n < 1"
  shows "(real_of_int (BREAK_FREQUENCY cfg) \<le> now w - last_break_time self \<longrightarrow>
            fst (should_take_break cfg self w) = (True, 600 + 600 * py_random w 2) \<and>
            snd (fst (should_take_break cfg self w)) \<in> {600..1200}) \<and>
         (now w - last_break_time self < real_of_int (BREAK_FREQUENCY cfg) \<and>
          py_random w 0 < 1 / 1000 \<longrightarrow>
            fst (should_take_break cfg self w) = (True, 30 + 90 * py_random w 1) \<and>
            snd (fst (should_take_break cfg self w)) \<in> {30..120}) \<and>
         (now w - last_break_time self < real_of_int (BREAK_FREQUENCY cfg) \<and>
          1 / 1000 \<le> py_random w 0 \<and>
          real_of_int (MAX_SESSION_DURATION cfg) \<le> now w - start_time self \<longrightarrow>
            fst (should_take_break cfg self w) = (True, 1800 + 1800 * py_random w 4) \<and>
            snd (fst (should_take_break cfg self w)) \<in> {1800..3600}) \<and>
         (now w - last_break_time self < real_of_int (BREAK_FREQUENCY cfg) \<and>
          1 / 1000 \<le> py_random w 0 \<and>
          now w - start_time self < real_of_int (MAX_SESSION_DURATION cfg) \<longrightarrow>
            fst (should_take_break cfg self w) = (False, 0))"
proof -
  have r1: "0 \<le> py_random w 1 \<and> py_random w 1 < 1" using draws by blast
  have r2: "0 \<le> py_random w 2 \<and> py_random w 2 < 1" using draws by blast
  have r4: "0 \<le> py_random w 4 \<and> py_random w 4 < 1" using draws by blast
  show ?thesis
    using r1 r2 r4 by (simp add: should_take_break_fst)
qed

text \<open>
  Four hours and more after the start and after the last break, both the break
  frequency and the session cap are exceeded: the answer is the scheduled break.
\<close>

theorem should_take_break_order_witness:
  "(\<forall>n. 0 \<le> py_random world_late n \<and> py_random world_late n < 1) \<and>
   real_of_int (BREAK_FREQUENCY default_config) \<le> now world_late - last_break_time session_start \<and>
   real_of_int (MAX_SESSION_DURATION default_config) \<le> now world_late - start_time session_start \<and>
   fst (should_take_break default_config session_start world_late) = (True, 900)"
proof -
  have d: "\<forall>n. 0 \<le> py_random world_late n \<and> py_random world_late n < 1"
    by (simp add: world_late_def)
  show ?thesis
    using should_take_break_order [OF d, of default_config session_start]
    by (simp add: world_late_def session_start_def default_config_def)
qed

text \<open>
  Claim C10. \<open>should_take_break\<close> writes no field of the object: \<open>start_time\<close>,
  \<open>action_count\<close>, \<open>last_break_time\<close> and \<open>action_history\<close> are after the call what
  they were before it, whichever trigger fires.
\<close>

theorem should_take_break_frame:
  "fst (snd (should_take_break cfg self w)) = self \<and>
   start_time (fst (snd (should_take_break cfg self w))) = start_time self \<and>
   action_count (fst (snd (should_take_break cfg self w))) = action_count self \<and>
   last_break_time (fst (snd (should_take_break cfg self w))) = last_break_time self \<and>
   action_history (fst (snd (should_take_break cfg self w))) = action_history self"
  by (simp add: should_take_break_def split_def Let_def)

section \<open>Fatigue\<close>

lemma calculate_fatigue_product:
  "calculate_fatigue cfg self w =
     (if ENABLE_FATIGUE cfg
      then time_component ((now w - start_time self) / 3600) * count_component (action_count self)
      else 1)"
  by (simp add: calculate_fatigue_def time_component_def count_component_def Let_def)

lemma time_component_bounds: "0 \<le> t \<Longrightarrow> 1 \<le> time_component t \<and> time_component t \<le> 5 / 4"
  by (auto simp add: time_component_def min_def)

lemma count_component_bounds: "1 \<le> count_component n \<and> count_component n \<le> 11 / 10"
  by (auto simp add: count_component_def min_def)

lemma calculate_fatigue_bounds:
  assumes "start_time self \<le> now w"
  shows "1 \<le> calculate_fatigue cfg self w \<and> calculate_fatigue cfg self w \<le> 11 / 8"
proof (cases "ENABLE_FATIGUE cfg")
  case False
  then show ?thesis by (simp add: calculate_fatigue_product)
next
  case True
  let ?t = "time_component ((now w - start_time self) / 3600)"
  let ?c = "count_component (action_count self)"
  have t: "1 \<le> ?t \<and> ?t \<le> 5 / 4" using assms by (intro time_component_bounds) simp
  have c: "1 \<le> ?c \<and> ?c \<le> 11 / 10" by (rule count_component_bounds)
  have lo: "1 * 1 \<le> ?t * ?c" using t c by (intro mult_mono) auto
  have hi: "?t * ?c \<le> (5 / 4) * (11 / 10)" using t c by (intro mult_mono) auto
  show ?thesis using True lo hi by (simp add: calculate_fatigue_product)
qed

text \<open>
  Claim C5. The fatigue multiplier depends only on the elapsed time and the action
  count. With fatigue enabled it is the product of the time component
  \<open>min(1.25, 1.0 + 0.05 * t_hours)\<close> and the count component
  (\<open>min(1.1, 1.0 + (n - 500) / 10000)\<close> above 500 actions, 1.0 otherwise); the time
  component is 1.0 at 0 hours, 1.25 from 5 hours on, linear in between, and 1.10 at
  2 hours; for an elapsed time that is not negative the product lies in [1.0, 1.375];
  with fatigue disabled the multiplier is 1.0.
\<close>

theorem calculate_fatigue_spec:
  "(ENABLE_FATIGUE cfg \<longrightarrow>
      calculate_fatigue cfg self w =
        time_component ((now w - start_time self) / 3600) * count_component (action_count self)) \<and>
   (\<not> ENABLE_FATIGUE cfg \<longrightarrow> calculate_fatigue cfg self w = 1) \<and>
   time_component 0 = 1 \<and>
   (5 \<le> t \<longrightarrow> time_component t = 125 / 100) \<and>
   (0 \<le> t \<and> t \<le> 5 \<longrightarrow> time_component t = 1 + (5 / 100) * t) \<and>
   time_component 2 = 110 / 100 \<and>
   (start_time self \<le> now w \<longrightarrow>
      1 \<le> calculate_fatigue cfg self w \<and> calculate_fatigue cfg self w \<le> 1375 / 1000)"
proof -
  have b: "start_time self \<le> now w \<longrightarrow>
      1 \<le> calculate_fatigue cfg self w \<and> calculate_fatigue cfg self w \<le> 1375 / 1000"
    using calculate_fatigue_bounds [of self w cfg] by simp
  have tc: "time_component 0 = 1 \<and> (5 \<le> t \<longrightarrow> time_component t = 125 / 100) \<and>
     (0 \<le> t \<and> t \<le> 5 \<longrightarrow> time_component t = 1 + (5 / 100) * t) \<and> time_component 2 = 110 / 100"
    by (simp add: time_component_def)
  show ?thesis using b tc by (simp add: calculate_fatigue_product)
qed

text \<open>
  Two hours into a session of 1000 actions the multiplier is 1.10 * 1.05; with fatigue
  switched off it is 1.
\<close>

theorem calculate_fatigue_spec_witness:
  "ENABLE_FATIGUE default_config \<and> start_time session_long \<le> now world_2h \<and>
   (5::real) \<le> 6 \<and> time_component 6 = 125 / 100 \<and>
   calculate_fatigue default_config session_long world_2h = 1155 / 1000 \<and>
   \<not> ENABLE_FATIGUE (default_config\<lparr>ENABLE_FATIGUE := False\<rparr>) \<and>
   calculate_fatigue (default_config\<lparr>ENABLE_FATIGUE := False\<rparr>) session_long world_2h = 1 \<and>
   (0::real) \<le> 3 \<and> (3::real) \<le> 5 \<and> time_component 3 = 115 / 100"
  using calculate_fatigue_spec [of default_config session_long world_2h 6]
    calculate_fatigue_spec [of "default_config\<lparr>ENABLE_FATIGUE := False\<rparr>" session_long world_2h 3]
  by (simp add: default_config_def session_long_def world_2h_def time_component_def count_component_def)

section \<open>Delays\<close>

lemma get_delay_fst:
  "fst (get_delay cfg action_type self w) =
     (fst (case delay_ranges cfg action_type of Some r \<Rightarrow> r | None \<Rightarrow> (3 / 10, 8 / 10)) +
      (snd (case delay_ranges cfg action_type of Some r \<Rightarrow> r | None \<Rightarrow> (3 / 10, 8 / 10)) -
       fst (case delay_ranges cfg action_type of Some r \<Rightarrow> r | None \<Rightarrow> (3 / 10, 8 / 10))) *
      py_random w 0) *
     calculate_fatigue cfg self w *
     (1 - RANDOM_VARIANCE + (1 + RANDOM_VARIANCE - (1 - RANDOM_VARIANCE)) * py_random w 1)"
  by (simp add: get_delay_def split_def Let_def random_uniform_fst random_uniform_snd)

lemma get_delay_action_count:
  "action_count (fst (snd (get_delay cfg action_type self w))) = action_count self + 1"
  by (simp add: get_delay_def split_def Let_def)

lemma count_component_mono: "m \<le> n \<Longrightarrow> count_component m \<le> count_component n"
  by (auto simp add: count_component_def min_def)

lemma calculate_fatigue_mono:
  assumes "start_time s1 = start_time s2" "start_time s1 \<le> now w"
    "action_count s1 \<le> action_count s2"
  shows "calculate_fatigue cfg s1 w \<le> calculate_fatigue cfg s2 w"
proof (cases "ENABLE_FATIGUE cfg")
  case False
  then show ?thesis by (simp add: calculate_fatigue_product)
next
  case True
  have t: "0 \<le> time_component ((now w - start_time s1) / 3600)"
    using time_component_bounds [of "(now w - start_time s1) / 3600"] assms(2) by simp
  have "time_component ((now w - start_time s1) / 3600) * count_component (action_count s1)
      \<le> time_component ((now w - start_time s1) / 3600) * count_component (action_count s2)"
    using t count_component_mono [OF assms(3)] by (rule mult_left_mono [rotated])
  then show ?thesis using True assms(1) by (simp add: calculate_fatigue_product)
qed

text \<open>
  Claim C1, as amended. \<open>get_delay\<close> computes the fatigue multiplier before it
  increments \<open>action_count\<close>: the delay returned is the base delay times the multiplier
  of the object as it was when the call began, times the jitter, and the count is one
  more afterwards. So the 501st call, which begins with a count of 500, uses the count
  500. The multiplier does not decrease when the count grows, start time and clock
  being equal and the elapsed time not negative: the 501st call's multiplier is at
  least the 500th's.
\<close>

theorem get_delay_fatigue_before_increment:
  "fst (get_delay cfg action_type self w) =
     (fst (case delay_ranges cfg action_type of Some r \<Rightarrow> r | None \<Rightarrow> (3 / 10, 8 / 10)) +
      (snd (case delay_ranges cfg action_type of Some r \<Rightarrow> r | None \<Rightarrow> (3 / 10, 8 / 10)) -
       fst (case delay_ranges cfg action_type of Some r \<Rightarrow> r | None \<Rightarrow> (3 / 10, 8 / 10))) *
      py_random w 0) *
     calculate_fatigue cfg self w *
     (1 - RANDOM_VARIANCE + (1 + RANDOM_VARIANCE - (1 - RANDOM_VARIANCE)) * py_random w 1) \<and>
   action_count (fst (snd (get_delay cfg action_type self w))) = action_count self + 1 \<and>
   (start_time s1 = start_time s2 \<and> start_time s1 \<le> now w \<and> action_count s1 \<le> action_count s2 \<longrightarrow>
      calculate_fatigue cfg s1 w \<le> calculate_fatigue cfg s2 w)"
  using get_delay_fst [of cfg action_type self w] get_delay_action_count [of cfg action_type self w]
    calculate_fatigue_mono [of s1 s2 w cfg]
  by blast

text \<open>
  The 500th call begins with 499 actions counted, the 501st with 500; the 501st call
  returns 0.55 for the category battle and leaves a count of 501.
\<close>

theorem get_delay_fatigue_before_increment_witness:
  "start_time (session_500\<lparr>action_count := 499\<rparr>) = start_time session_500 \<and>
   start_time (session_500\<lparr>action_count := 499\<rparr>) \<le> now world_start \<and>
   action_count (session_500\<lparr>action_count := 499\<rparr>) \<le> action_count session_500 \<and>
   calculate_fatigue default_config (session_500\<lparr>action_count := 499\<rparr>) world_start
     \<le> calculate_fatigue default_config session_500 world_start \<and>
   fst (get_delay default_config ''battle'' session_500 world_start) = 55 / 100 \<and>
   action_count (fst (snd (get_delay default_config ''battle'' session_500 world_start))) = 501"
  using get_delay_fatigue_before_increment
    [of default_config "''battle''" session_500 world_start "session_500\<lparr>action_count := 499\<rparr>" session_500]
  by (simp add: session_500_def world_start_def default_config_def delay_ranges_def
      calculate_fatigue_def RANDOM_VARIANCE_def)

text \<open>
  Claim C1 as stated fails: the delay of the 501st call is not the one that the
  multiplier of the incremented count, 501, would give.
\<close>

theorem get_delay_fatigue_after_increment_counterexample:
  "fst (get_delay default_config ''battle'' session_500 world_start) \<noteq>
     (3 / 10 + (8 / 10 - 3 / 10) * py_random world_start 0) *
     calculate_fatigue default_config
       (session_500\<lparr>action_count := action_count session_500 + 1\<rparr>) world_start *
     (1 - RANDOM_VARIANCE + (1 + RANDOM_VARIANCE - (1 - RANDOM_VARIANCE)) * py_random world_start 1)"
  by (simp add: get_delay_fst session_500_def world_start_def default_config_def delay_ranges_def
      calculate_fatigue_def RANDOM_VARIANCE_def)







section \<open>The history window\<close>

lemma get_delay_history:
  "action_history (fst (snd (get_delay cfg action_type self w))) =
     (let h = action_history self @
                [\<lparr>rec_time = now (snd (snd (get_delay cfg action_type self w))),
                  rec_type = action_type,
                  rec_delay = fst (get_delay cfg action_type self w)\<rparr>]
      in if length h > 100 then tl h else h)"
  by (simp add: get_delay_def split_def Let_def)

lemma get_delay_history_drop:
  assumes "length (action_history self) \<le> 100"
  shows "action_history (fst (snd (get_delay cfg action_type self w))) =
     drop (length (action_history self) + 1 - 100)
       (action_history self @
          [\<lparr>rec_time = now (snd (snd (get_delay cfg action_type self w))),
            rec_type = action_type,
            rec_delay = fst (get_delay cfg action_type self w)\<rparr>])"
proof (cases "length (action_history self) = 100")
  case True
  then have "action_history self \<noteq> []" by auto
  then show ?thesis using True
    by (simp add: get_delay_history Let_def drop_Suc)
next
  case False
  then have "length (action_history self) + 1 - 100 = 0" using assms by simp
  then show ?thesis using False assms
    by (simp add: get_delay_history Let_def)
qed

lemma drop_window:
  fixes xs ys :: "'a list"
  shows "drop (length (drop (length xs - 100) xs @ ys) - 100) (drop (length xs - 100) xs @ ys) =
         drop (length (xs @ ys) - 100) (xs @ ys)"
proof (cases "length xs \<le> 100")
  case True
  then show ?thesis by simp
next
  case False
  then have k: "length xs - 100 + 100 = length xs" by simp
  have "drop (length (xs @ ys) - 100) (xs @ ys) = drop (length ys + (length xs - 100)) (xs @ ys)"
    using False by (simp add: add.commute)
  also have "\<dots> = drop (length ys) (drop (length xs - 100) (xs @ ys))"
    by (simp only: drop_drop)
  also have "\<dots> = drop (length ys) (drop (length xs - 100) xs @ ys)"
    using False by simp
  finally show ?thesis using False by simp
qed

lemma get_delay_calls_history:
  "length (action_history self) \<le> 100 \<Longrightarrow>
   action_history (fst (snd (get_delay_calls cfg cs self w))) =
     drop (length (action_history self @ fst (get_delay_calls cfg cs self w)) - 100)
       (action_history self @ fst (get_delay_calls cfg cs self w))"
proof (induction cs arbitrary: self w)
  case Nil
  then show ?case by simp
next
  case (Cons c cs)
  obtain a p where c: "c = (a, p)" by (cases c)
  let ?w0 = "w\<lparr>now := now w + p\<rparr>"
  let ?g = "get_delay cfg a self ?w0"
  let ?r = "\<lparr>rec_time = now (snd (snd ?g)), rec_type = a, rec_delay = fst ?g\<rparr>"
  let ?rest = "get_delay_calls cfg cs (fst (snd ?g)) (snd (snd ?g))"
  have h1: "action_history (fst (snd ?g)) =
      drop (length (action_history self @ [?r]) - 100) (action_history self @ [?r])"
    using get_delay_history_drop [OF Cons.prems, of cfg a ?w0] by simp
  then have len1: "length (action_history (fst (snd ?g))) \<le> 100"
    by simp
  have unfold_fst: "fst (get_delay_calls cfg (c # cs) self w) = ?r # fst ?rest"
    by (simp add: c split_def Let_def)
  have unfold_snd: "fst (snd (get_delay_calls cfg (c # cs) self w)) = fst (snd ?rest)"
    by (simp add: c split_def Let_def)
  have "action_history (fst (snd ?rest)) =
      drop (length (action_history (fst (snd ?g)) @ fst ?rest) - 100)
        (action_history (fst (snd ?g)) @ fst ?rest)"
    by (rule Cons.IH [OF len1])
  also have "\<dots> = drop (length ((action_history self @ [?r]) @ fst ?rest) - 100)
        ((action_history self @ [?r]) @ fst ?rest)"
    unfolding h1 by (rule drop_window)
  finally show ?case
    unfolding unfold_fst unfold_snd by simp
qed

lemma get_delay_calls_length: "length (fst (get_delay_calls cfg cs self w)) = length cs"
  by (induction cs arbitrary: self w) (auto simp add: split_def Let_def)

lemma get_delay_calls_count:
  "action_count (fst (snd (get_delay_calls cfg cs self w))) = action_count self + int (length cs)"
  by (induction cs arbitrary: self w) (auto simp add: split_def Let_def get_delay_action_count)

text \<open>
  Claim C6. After any number of calls of \<open>get_delay\<close> on a new object,
  \<open>action_history\<close> holds the records of the last 100 calls, oldest first: the
  records of all calls with all but the last 100 dropped. Its length is the smaller
  of the number of calls (which \<open>action_count\<close> equals) and 100, never more than 100,
  and exactly 100 after 1000 calls.
\<close>

theorem action_history_window:
  "action_history (fst (snd (get_delay_calls cfg cs (init w0) w))) =
     drop (length cs - 100) (fst (get_delay_calls cfg cs (init w0) w)) \<and>
   length (fst (get_delay_calls cfg cs (init w0) w)) = length cs \<and>
   action_count (fst (snd (get_delay_calls cfg cs (init w0) w))) = int (length cs) \<and>
   length (action_history (fst (snd (get_delay_calls cfg cs (init w0) w)))) = min (length cs) 100 \<and>
   length (action_history (fst (snd (get_delay_calls cfg cs (init w0) w)))) \<le> 100 \<and>
   (length cs = 1000 \<longrightarrow>
      length (action_history (fst (snd (get_delay_calls cfg cs (init w0) w)))) = 100)"
proof -
  have e: "action_history (init w0) = []" by (simp add: init_def)
  have h: "action_history (fst (snd (get_delay_calls cfg cs (init w0) w))) =
     drop (length cs - 100) (fst (get_delay_calls cfg cs (init w0) w))"
    using get_delay_calls_history [of "init w0" cfg cs w]
    by (simp add: e get_delay_calls_length)
  have n: "action_count (fst (snd (get_delay_calls cfg cs (init w0) w))) = int (length cs)"
    by (simp add: get_delay_calls_count init_def)
  have l: "length (action_history (fst (snd (get_delay_calls cfg cs (init w0) w)))) = min (length cs) 100"
    unfolding h by (simp add: get_delay_calls_length)
  show ?thesis using h n l by (simp add: get_delay_calls_length)
qed

text \<open>A thousand clicks, a second apart.\<close>

theorem action_history_window_witness:
  "length (replicate 1000 (''click'', 1::real)) = 1000 \<and>
   length (action_history (fst (snd (get_delay_calls default_config
       (replicate 1000 (''click'', 1)) (init world_start) world_start)))) = 100"
  using action_history_window [of default_config "replicate 1000 (''click'', 1)" world_start world_start]
  by simp

section \<open>Gestures\<close>

lemma np_clip_bounds: "lo \<le> hi \<Longrightarrow> lo \<le> np_clip x lo hi \<and> np_clip x lo hi \<le> hi"
  by (simp add: np_clip_def)

lemma human_delay_normal_Inr:
  assumes "0 \<le> min_ms" "min_ms \<le> max_ms"
  shows "human_delay min_ms max_ms ''normal'' w =
           Inr (w\<lparr>np_normal := (\<lambda>n. np_normal w (Suc n)),
                  now := now w +
                    np_clip ((min_ms + max_ms) / 2 + (max_ms - min_ms) / 6 * np_normal w 0)
                      min_ms max_ms / 1000\<rparr>)"
proof -
  let ?c = "np_clip ((min_ms + max_ms) / 2 + (max_ms - min_ms) / 6 * np_normal w 0) min_ms max_ms"
  have "min_ms \<le> ?c" using assms(2) np_clip_bounds by blast
  then have nn: "\<not> ?c < 0" using assms(1) by simp
  have sd: "\<not> (max_ms - min_ms) / 6 < 0" using assms(2) by simp
  show ?thesis
    using nn sd by (simp add: human_delay_def np_random_normal_def time_sleep_def Let_def)
qed

lemma scroll_loop_pixels:
  "map_sum id (map pixels \<circ> fst) (scroll_loop n on_element d w) = Inr (replicate n d)"
proof (induction n arbitrary: w)
  case 0
  then show ?case by simp
next
  case (Suc n)
  obtain w1 where h: "human_delay 50 150 ''normal'' w = Inr w1"
    using human_delay_normal_Inr [of 50 150 w] by simp
  from Suc.IH [of w1] show ?case
    by (cases "scroll_loop n on_element d w1") (auto simp add: h Let_def)
qed

lemma random_randint_range:
  assumes "0 \<le> py_random w 0" "py_random w 0 < 1" "a \<le> b"
  shows "a \<le> fst (random_randint a b w) \<and> fst (random_randint a b w) \<le> b"
proof -
  let ?u = "py_random w 0"
  let ?k = "real_of_int (b - a + 1)"
  have k: "0 < ?k" using assms(3) by simp
  have lo: "0 \<le> ?u * ?k" using assms(1) k by simp
  have "?u * ?k < 1 * ?k" using assms(2) k by (intro mult_strict_right_mono) auto
  then have "?u * ?k < ?k" by simp
  then have hi: "\<lfloor>?u * ?k\<rfloor> < b - a + 1" by (simp only: floor_less_iff)
  have "0 \<le> \<lfloor>?u * ?k\<rfloor>" using lo by simp
  then show ?thesis using hi by (simp add: random_randint_def random_random_def)
qed

lemma human_scroll_pixels:
  assumes "0 \<le> py_random w 0" "py_random w 0 < 1"
  shows "fst (random_randint 2 5 w) \<in> {2..5} \<and>
         map_sum id (map pixels \<circ> fst) (human_scroll direction (Some amount) on_element w) =
           Inr (replicate (nat (fst (random_randint 2 5 w)))
                  ((if direction = ''down'' then amount else - amount) div fst (random_randint 2 5 w)))"
  using random_randint_range [OF assms, of 2 5]
  by (simp add: human_scroll_def split_def Let_def scroll_loop_pixels)

text \<open>
  Claim C9, as amended. For bounds \<open>0 \<le> min_ms \<le> max_ms\<close>, \<open>human_delay\<close> with the
  shape normal draws from the normal distribution of mean the midpoint and standard
  deviation \<open>(max_ms - min_ms) / 6\<close>, clamps the draw into \<open>[min_ms, max_ms]\<close>, and
  sleeps for that many milliseconds itself: the clock has moved on by the clamped
  value when the call returns, and the call hands no value back.
\<close>

theorem human_delay_normal_sleeps:
  assumes "0 \<le> min_ms" "min_ms \<le> max_ms"
  shows "human_delay min_ms max_ms ''normal'' w =
           Inr (w\<lparr>np_normal := (\<lambda>n. np_normal w (Suc n)),
                  now := now w +
                    np_clip ((min_ms + max_ms) / 2 + (max_ms - min_ms) / 6 * np_normal w 0)
                      min_ms max_ms / 1000\<rparr>) \<and>
         min_ms \<le> np_clip ((min_ms + max_ms) / 2 + (max_ms - min_ms) / 6 * np_normal w 0)
                      min_ms max_ms \<and>
         np_clip ((min_ms + max_ms) / 2 + (max_ms - min_ms) / 6 * np_normal w 0)
                      min_ms max_ms \<le> max_ms"
  using human_delay_normal_Inr [OF assms, of w] np_clip_bounds [OF assms(2)]
  by blast

text \<open>Bounds of 100 and 500 ms and a draw 1.8 deviations below the mean: 180 ms of sleep.\<close>

theorem human_delay_normal_sleeps_witness:
  "(0::real) \<le> 100 \<and> (100::real) \<le> 500 \<and>
   map_sum id now (human_delay 100 500 ''normal'' world_click) = Inr (180 / 1000)"
  using human_delay_normal_sleeps [of 100 500 world_click]
  by (simp add: world_click_def np_clip_def)

text \<open>
  Claim C9 as stated fails: the call with bounds of 100 and 500 ms does sleep, the
  clock is 300 ms further when it returns.
\<close>

theorem human_delay_returns_value_counterexample:
  "map_sum id now (human_delay 100 500 ''normal'' world_start) = Inr (now world_start + 300 / 1000) \<and>
   now world_start + 300 / 1000 \<noteq> now world_start"
  by (simp add: human_delay_def np_random_normal_def time_sleep_def Let_def np_clip_def world_start_def)

text \<open>
  Claim C3, as amended. \<open>human_delay\<close> does not check its bounds. With
  \<open>min_ms > max_ms\<close> and the shape normal the call fails with the \<open>ValueError\<close> that
  the normal sampler raises for a negative standard deviation. With any other shape
  (and \<open>max_ms\<close> not negative) it does not fail, and nothing is clamped to zero: it
  sleeps for a value drawn between \<open>max_ms\<close> and \<open>min_ms\<close>.
\<close>

theorem human_delay_inverted_bounds:
  assumes "max_ms < min_ms"
  shows "human_delay min_ms max_ms ''normal'' w = Inl ValueError \<and>
         (distribution \<noteq> ''normal'' \<and> 0 \<le> max_ms \<and> 0 \<le> py_random w 0 \<and> py_random w 0 < 1 \<longrightarrow>
            human_delay min_ms max_ms distribution w =
              Inr (w\<lparr>py_random := (\<lambda>n. py_random w (Suc n)),
                     now := now w + (min_ms + (max_ms - min_ms) * py_random w 0) / 1000\<rparr>) \<and>
            max_ms \<le> min_ms + (max_ms - min_ms) * py_random w 0 \<and>
            min_ms + (max_ms - min_ms) * py_random w 0 \<le> min_ms)"
proof -
  have n: "human_delay min_ms max_ms ''normal'' w = Inl ValueError"
    using assms by (simp add: human_delay_def np_random_normal_def Let_def)
  have u: "max_ms \<le> min_ms + (max_ms - min_ms) * py_random w 0 \<and>
           min_ms + (max_ms - min_ms) * py_random w 0 \<le> min_ms"
    if r: "0 \<le> py_random w 0" "py_random w 0 < 1"
  proof -
    have "(max_ms - min_ms) * 1 \<le> (max_ms - min_ms) * py_random w 0"
      using assms r by (intro mult_left_mono_neg) auto
    moreover have "(max_ms - min_ms) * py_random w 0 \<le> 0"
      using assms r by (simp add: mult_nonpos_nonneg)
    ultimately show ?thesis by simp
  qed
  have s: "human_delay min_ms max_ms distribution w =
              Inr (w\<lparr>py_random := (\<lambda>n. py_random w (Suc n)),
                     now := now w + (min_ms + (max_ms - min_ms) * py_random w 0) / 1000\<rparr>)"
    if d: "distribution \<noteq> ''normal''" and m: "0 \<le> max_ms"
      and r: "0 \<le> py_random w 0" "py_random w 0 < 1"
  proof -
    have "\<not> min_ms + (max_ms - min_ms) * py_random w 0 < 0" using u [OF r] m by simp
    then show ?thesis
      using d by (simp add: human_delay_def random_uniform_def random_random_def time_sleep_def)
  qed
  show ?thesis using n u s by blast
qed

text \<open>Bounds of 500 and 100 ms, in both shapes.\<close>

theorem human_delay_inverted_bounds_witness:
  "(100::real) < 500 \<and> ''uniform'' \<noteq> ''normal'' \<and> (0::real) \<le> 100 \<and>
   0 \<le> py_random world_start 0 \<and> py_random world_start 0 < 1 \<and>
   human_delay 500 100 ''normal'' world_start = Inl ValueError \<and>
   map_sum id now (human_delay 500 100 ''uniform'' world_start) = Inr (300 / 1000)"
  using human_delay_inverted_bounds [of 100 500 world_start "''uniform''"]
  by (simp add: world_start_def)

text \<open>
  Claim C3 as stated fails: with the bounds 500 and 100 ms and the shape uniform the
  call raises nothing and sleeps 300 ms.
\<close>

theorem human_delay_inverted_bounds_counterexample:
  "map_sum id now (human_delay 500 100 ''uniform'' world_start) = Inr (300 / 1000)"
  by (simp add: human_delay_def random_uniform_def random_random_def time_sleep_def world_start_def)

text \<open>
  Claim C2. The scroll steps are meant to add up to the signed amount. In the code
  every step scrolls \<open>scroll_amount // steps\<close> and the remainder of the division is
  never scrolled: 100 pixels down in 3 steps are three steps of 33, 99 in all, and
  100 pixels up in 3 steps are three steps of -34, -102 in all.
\<close>

theorem human_scroll_loses_remainder:
  "map_sum id (map pixels \<circ> fst) (human_scroll ''down'' (Some 100) False world_scroll) = Inr [33, 33, 33] \<and>
   map_sum id (sum_list \<circ> map pixels \<circ> fst) (human_scroll ''down'' (Some 100) False world_scroll) = Inr 99 \<and>
   map_sum id (sum_list \<circ> map pixels \<circ> fst) (human_scroll ''up'' (Some 100) False world_scroll) = Inr (- 102)"
  by (simp add: human_scroll_def world_scroll_def random_randint_def random_random_def
      np_random_normal_def np_clip_def human_delay_def time_sleep_def Let_def numeral_3_eq_3)

text \<open>
  Claim C8. The offset of a click is meant to keep 5 units from the element's edge.
  On an element 21 wide and 21 high, with a variance of 10 and normal draws 1.8
  deviations below the mean, the code clicks at the offset (-6, -6): more than
  \<open>21 / 2 - 5\<close> from the centre, for the lower clamp bound \<open>-21 // 2 + 5\<close> is -6.
\<close>

theorem human_click_inside_margin:
  "fst (human_click element_21 10 world_click) = (True, [MoveToOffsetAndClick (- 6) (- 6)]) \<and>
   \<not> list_all (within_margin element_21) (snd (fst (human_click element_21 10 world_click)))"
  by (simp add: human_click_def element_21_def world_click_def np_random_normal_def np_clip_def
      py_int_def human_delay_def time_sleep_def Let_def)

end
